theory Spec2Isabelle
  imports Main "HOL-Library.List_Lexorder" "HOL-Library.Char_ord" "HOL-Library.Sublist"
    "HOL-Library.Multiset"
begin

section \<open>Netflix titles analysis: the data model\<close>

text \<open>
  The program of \<^verbatim>\<open>netflix_analysis.py\<close> loads one sheet of a workbook into a pandas
  data frame, standardises the column labels, derives two duration columns, and writes
  a CSV table, a text summary and up to three charts.

  A cell of the sheet is missing (pandas' NaN, and \<^verbatim>\<open>pd.NA\<close>), a number or a text.
  Numbers are integers here: the quantities the program itself produces (parsed digit
  runs, years cast with \<^verbatim>\<open>astype(int)\<close>, counts) are integers, and floating-point cells
  of the input are not modelled. Text is a list of 8-bit characters; the character classes
  below are the ASCII ones.

  A row is the spec's record: a mapping from column label to cell. A table is the list
  of its column labels with the list of its rows, so a table holds one column per
  label (two raw labels that standardise to the same name are outside this model: the
  lookup of line 50 keeps the first). Labels are text, as line 50 takes them to be.
\<close>

datatype cell = NA | Num int | Txt string

type_synonym row = "string \<Rightarrow> cell"

record table =
  labels :: "string list"
  rows :: "row list"

datatype error =
    FileNotFoundError string
  | KeyError string
  | IndexError
  | TypeError string

text \<open>\<^verbatim>\<open>name in df.columns\<close>, \<^verbatim>\<open>len(df)\<close> and \<^verbatim>\<open>df[name]\<close>. Reading a column that is
  not there raises \<^verbatim>\<open>KeyError\<close>.\<close>

definition has_column :: "table \<Rightarrow> string \<Rightarrow> bool" where
  "has_column df name = (name \<in> set (labels df))"

definition len :: "table \<Rightarrow> nat" where
  "len df = length (rows df)"

definition column :: "table \<Rightarrow> string \<Rightarrow> cell list" where
  "column df name = map (\<lambda>r. r name) (rows df)"

definition getitem :: "table \<Rightarrow> string \<Rightarrow> error + cell list" where
  "getitem df name =
     (if has_column df name then Inr (column df name) else Inl (KeyError name))"

text \<open>\<^verbatim>\<open>df[name] = values\<close>: the column is replaced where it exists and appended
  otherwise; \<^verbatim>\<open>df[name] = pd.NA\<close> fills every row with the scalar.\<close>

definition setitem :: "string \<Rightarrow> cell list \<Rightarrow> table \<Rightarrow> table" where
  "setitem name vals df =
     \<lparr> labels = (if name \<in> set (labels df) then labels df else labels df @ [name]),
       rows = map (\<lambda>(r, v). r(name := v)) (zip (rows df) vals) \<rparr>"

definition setitem_scalar :: "string \<Rightarrow> cell \<Rightarrow> table \<Rightarrow> table" where
  "setitem_scalar name v df = setitem name (replicate (len df) v) df"

section \<open>Text operations\<close>

text \<open>Python's \<^verbatim>\<open>str.isspace\<close>, \<^verbatim>\<open>str.strip()\<close>, \<^verbatim>\<open>str.lower()\<close> and
  \<^verbatim>\<open>str.replace(" ", "_")\<close> on ASCII text, and the regular-expression classes
  \<^verbatim>\<open>\d\<close> and \<^verbatim>\<open>[A-Za-z]\<close>.\<close>

definition isspace :: "char \<Rightarrow> bool" where
  "isspace c =
     (let n = (of_char c :: nat) in n = 32 \<or> (9 \<le> n \<and> n \<le> 13) \<or> (28 \<le> n \<and> n \<le> 31))"

definition isdigit :: "char \<Rightarrow> bool" where
  "isdigit c = (let n = (of_char c :: nat) in 48 \<le> n \<and> n \<le> 57)"

definition isupper :: "char \<Rightarrow> bool" where
  "isupper c = (let n = (of_char c :: nat) in 65 \<le> n \<and> n \<le> 90)"

definition isalpha :: "char \<Rightarrow> bool" where
  "isalpha c = (let n = (of_char c :: nat) in (65 \<le> n \<and> n \<le> 90) \<or> (97 \<le> n \<and> n \<le> 122))"

definition str_strip :: "string \<Rightarrow> string" where
  "str_strip s = rev (dropWhile isspace (rev (dropWhile isspace s)))"

definition lower_char :: "char \<Rightarrow> char" where
  "lower_char c = (if isupper c then char_of ((of_char c :: nat) + 32) else c)"

definition str_lower :: "string \<Rightarrow> string" where
  "str_lower s = map lower_char s"

definition str_replace_space :: "string \<Rightarrow> string" where
  "str_replace_space s = map (\<lambda>c. if c = CHR '' '' then CHR ''_'' else c) s"

text \<open>\<^verbatim>\<open>re.search\<close> with a pattern \<^verbatim>\<open>(C+)\<close> for a character class \<open>C\<close>: the
  search tries each start position from the left, and at the first position that holds
  a character of the class the greedy \<^verbatim>\<open>+\<close> takes every character of the class that
  follows. No match is \<open>None\<close>.\<close>

fun re_search_plus :: "(char \<Rightarrow> bool) \<Rightarrow> string \<Rightarrow> string option" where
  "re_search_plus C [] = None"
| "re_search_plus C (c # cs) =
     (if C c then Some (c # takeWhile C cs) else re_search_plus C cs)"

text \<open>\<^verbatim>\<open>re.search("min", s)\<close> as a truth value: the literal pattern matches at some
  position of the text.\<close>

fun re_contains :: "string \<Rightarrow> string \<Rightarrow> bool" where
  "re_contains pat [] = (pat = [])"
| "re_contains pat (c # cs) = (take (length pat) (c # cs) = pat \<or> re_contains pat cs)"

text \<open>The decimal value of a run of digits (what \<^verbatim>\<open>pd.to_numeric\<close> makes of it; pandas
  stores it in a machine number, which is exact up to \<open>2^53\<close>), and Python's \<^verbatim>\<open>str\<close>
  of an integer.\<close>

definition digit_val :: "char \<Rightarrow> nat" where
  "digit_val c = (of_char c :: nat) - 48"

definition decimal :: "string \<Rightarrow> nat" where
  "decimal s = foldl (\<lambda>acc c. 10 * acc + digit_val c) 0 s"

definition digit_char :: "nat \<Rightarrow> char" where
  "digit_char d = char_of (48 + d)"

fun str_of_nat :: "nat \<Rightarrow> string" where
  "str_of_nat n =
     (if n < 10 then [digit_char n] else str_of_nat (n div 10) @ [digit_char (n mod 10)])"

definition str_of_int :: "int \<Rightarrow> string" where
  "str_of_int i = (if i < 0 then CHR ''-'' # str_of_nat (nat (- i)) else str_of_nat (nat i))"

section \<open>Column operations of pandas\<close>

text \<open>\<^verbatim>\<open>Series.astype(str)\<close>: a missing cell becomes the text \<^verbatim>\<open>nan\<close>. (In a
  floating-point column pandas prints the integer 90 as \<^verbatim>\<open>90.0\<close>; its first digit
  run is the same and it has no letters either.)\<close>

definition astype_str :: "cell \<Rightarrow> cell" where
  "astype_str c = (case c of NA \<Rightarrow> Txt ''nan'' | Num i \<Rightarrow> Txt (str_of_int i) | Txt s \<Rightarrow> Txt s)"

text \<open>\<^verbatim>\<open>Series.str.extract(pattern)[0]\<close>, \<^verbatim>\<open>Series.str.lower()\<close>,
  \<^verbatim>\<open>Series.str.strip()\<close> and \<^verbatim>\<open>Series.str.contains(pat, na=False)\<close>, cell by cell.
  The string accessor gives a missing value for a cell that is not text, which
  \<^verbatim>\<open>na=False\<close> reads as false.\<close>

definition str_extract :: "(char \<Rightarrow> bool) \<Rightarrow> cell \<Rightarrow> cell" where
  "str_extract C c =
     (case c of Txt s \<Rightarrow> (case re_search_plus C s of None \<Rightarrow> NA | Some m \<Rightarrow> Txt m) | _ \<Rightarrow> NA)"

definition cell_lower :: "cell \<Rightarrow> cell" where
  "cell_lower c = (case c of Txt s \<Rightarrow> Txt (str_lower s) | _ \<Rightarrow> NA)"

definition cell_strip :: "cell \<Rightarrow> cell" where
  "cell_strip c = (case c of Txt s \<Rightarrow> Txt (str_strip s) | _ \<Rightarrow> NA)"

definition str_contains :: "string \<Rightarrow> cell \<Rightarrow> bool" where
  "str_contains pat c = (case c of Txt s \<Rightarrow> re_contains pat s | _ \<Rightarrow> False)"

text \<open>\<^verbatim>\<open>pd.to_numeric(column, errors="coerce")\<close>. A number stays, a missing cell stays
  missing, a run of decimal digits is its value. What pandas makes of any other text
  (a sign, a fraction, an exponent, surrounding blanks) is the library's: it is the
  parameter \<open>parse\<close>, with \<open>None\<close> for text that is not a number, which
  \<^verbatim>\<open>errors="coerce"\<close> turns into a missing cell.\<close>

definition to_numeric :: "(string \<Rightarrow> int option) \<Rightarrow> cell \<Rightarrow> cell" where
  "to_numeric parse c =
     (case c of
        NA \<Rightarrow> NA
      | Num i \<Rightarrow> Num i
      | Txt s \<Rightarrow>
          (if s \<noteq> [] \<and> list_all isdigit s then Num (int (decimal s))
           else (case parse s of None \<Rightarrow> NA | Some i \<Rightarrow> Num i)))"

text \<open>\<^verbatim>\<open>Series.where(cond)\<close> keeps a value where the condition holds and leaves a
  missing value elsewhere.\<close>

definition series_where :: "cell list \<Rightarrow> bool list \<Rightarrow> cell list" where
  "series_where vals cond = map (\<lambda>(v, b). if b then v else NA) (zip vals cond)"

text \<open>\<^verbatim>\<open>df.dropna(subset=[name])\<close> keeps the rows whose cell in that column is there.\<close>

definition dropna :: "string \<Rightarrow> table \<Rightarrow> table" where
  "dropna name df = df\<lparr> rows := filter (\<lambda>r. r name \<noteq> NA) (rows df) \<rparr>"

text \<open>\<^verbatim>\<open>Series.value_counts(dropna=False)\<close>: every distinct value with the number of
  cells that hold it, most frequent first. Values of equal frequency stand here in the
  order of their first appearance; pandas leaves their order to its sort.
  \<^verbatim>\<open>Series.nunique()\<close> counts the distinct values that are there.\<close>

definition value_counts :: "cell list \<Rightarrow> (cell \<times> nat) list" where
  "value_counts xs =
     sort_key (\<lambda>(v, n). - int n) (map (\<lambda>v. (v, count_list xs v)) (rev (remdups (rev xs))))"

definition nunique :: "cell list \<Rightarrow> nat" where
  "nunique xs = length (remdups (filter (\<lambda>c. c \<noteq> NA) xs))"

text \<open>The numbers and the texts of a column, in order.\<close>

definition int_cells :: "cell list \<Rightarrow> int list" where
  "int_cells cs = concat (map (\<lambda>c. case c of Num i \<Rightarrow> [i] | _ \<Rightarrow> []) cs)"

definition txt_cells :: "cell list \<Rightarrow> string list" where
  "txt_cells cs = concat (map (\<lambda>c. case c of Txt s \<Rightarrow> [s] | _ \<Rightarrow> []) cs)"

section \<open>The loader\<close>

text \<open>A workbook is the list of its sheets by name, in the file's order.
  \<^verbatim>\<open>pick_title_sheet\<close> (lines 31 to 38) walks the preferred names and reads the first
  that is a sheet of the file, and the file's first sheet when none is.\<close>

type_synonym workbook = "(string \<times> table) list"

definition sheet_names :: "workbook \<Rightarrow> string list" where
  "sheet_names xls = map fst xls"

definition read_excel :: "workbook \<Rightarrow> string \<Rightarrow> error + table" where
  "read_excel xls name = (case map_of xls name of None \<Rightarrow> Inl (KeyError name) | Some df \<Rightarrow> Inr df)"

definition preferred :: "string list" where
  "preferred = [''netflix_titles'', ''titles'', ''sheet1'', ''Sheet1'']"

fun pick_loop :: "workbook \<Rightarrow> string list \<Rightarrow> error + table" where
  "pick_loop xls [] =
     (case sheet_names xls of [] \<Rightarrow> Inl IndexError | first # _ \<Rightarrow> read_excel xls first)"
| "pick_loop xls (name # names) =
     (if name \<in> set (sheet_names xls) then read_excel xls name else pick_loop xls names)"

definition pick_title_sheet :: "workbook \<Rightarrow> error + table" where
  "pick_title_sheet xls = pick_loop xls preferred"

section \<open>The normaliser\<close>

text \<open>Line 50: every label is stripped, lowercased and has its blanks replaced by
  underscores; the cells stay with their columns.\<close>

definition standardize_label :: "string \<Rightarrow> string" where
  "standardize_label c = str_replace_space (str_lower (str_strip c))"

definition standardize_columns :: "table \<Rightarrow> table" where
  "standardize_columns df =
     \<lparr> labels = map standardize_label (labels df),
       rows = map (\<lambda>r name.
                 case find (\<lambda>c. standardize_label c = name) (labels df) of
                   None \<Rightarrow> NA
                 | Some c \<Rightarrow> r c) (rows df) \<rparr>"

text \<open>Lines 53 to 63. With a \<^verbatim>\<open>duration\<close> column and neither duration field, the
  number and the unit are extracted from the duration text and the two fields are
  the number where the unit holds \<^verbatim>\<open>min\<close>, respectively \<^verbatim>\<open>season\<close>. Otherwise each
  field that is not there is created empty.\<close>

definition derive_duration :: "(string \<Rightarrow> int option) \<Rightarrow> table \<Rightarrow> table" where
  "derive_duration parse df =
     (let dur = map astype_str (column df ''duration'');
          df = setitem ''duration_number''
                 (map (to_numeric parse) (map (str_extract isdigit) dur)) df;
          df = setitem ''duration_unit'' (map cell_lower (map (str_extract isalpha) dur)) df;
          df = setitem ''duration_minutes''
                 (series_where (column df ''duration_number'')
                    (map (str_contains ''min'') (column df ''duration_unit''))) df;
          df = setitem ''duration_seasons''
                 (series_where (column df ''duration_number'')
                    (map (str_contains ''season'') (column df ''duration_unit''))) df
      in df)"

definition fill_duration :: "table \<Rightarrow> table" where
  "fill_duration df =
     (let df = (if \<not> has_column df ''duration_minutes''
                then setitem_scalar ''duration_minutes'' NA df else df);
          df = (if \<not> has_column df ''duration_seasons''
                then setitem_scalar ''duration_seasons'' NA df else df)
      in df)"

definition parse_duration :: "(string \<Rightarrow> int option) \<Rightarrow> table \<Rightarrow> table" where
  "parse_duration parse df =
     (if has_column df ''duration'' \<and>
         (\<not> has_column df ''duration_minutes'' \<and> \<not> has_column df ''duration_seasons'')
      then derive_duration parse df
      else fill_duration df)"

text \<open>The condition of line 53, and lines 54 to 56 read for one cell of the duration
  column: its number and its unit.\<close>

definition derivable :: "table \<Rightarrow> bool" where
  "derivable df =
     (has_column df ''duration'' \<and>
      (\<not> has_column df ''duration_minutes'' \<and> \<not> has_column df ''duration_seasons''))"

definition number_of :: "(string \<Rightarrow> int option) \<Rightarrow> cell \<Rightarrow> cell" where
  "number_of parse c = to_numeric parse (str_extract isdigit (astype_str c))"

definition unit_of :: "cell \<Rightarrow> cell" where
  "unit_of c = cell_lower (str_extract isalpha (astype_str c))"

text \<open>Lines 65 and 66: the type column as stripped text.\<close>

definition strip_type :: "table \<Rightarrow> table" where
  "strip_type df =
     (if has_column df ''type''
      then setitem ''type'' (map cell_strip (map astype_str (column df ''type''))) df
      else df)"

definition normalize :: "(string \<Rightarrow> int option) \<Rightarrow> table \<Rightarrow> table" where
  "normalize parse sheet = strip_type (parse_duration parse (standardize_columns sheet))"

section \<open>The aggregator and reporter\<close>

text \<open>What pandas and matplotlib render is theirs: the bytes of a CSV table and of a
  printed series are functions of the counted table (the parameters \<open>to_csv\<close> and
  \<open>to_string\<close>), and a chart file is described by the data that is plotted.\<close>

record pandas =
  parse_number :: "string \<Rightarrow> int option"
  to_csv :: "(cell \<times> nat) list \<Rightarrow> string"
  to_string :: "(cell \<times> nat) list \<Rightarrow> string"

record pivot =
  index :: "int list"
  columns :: "string list"
  counts :: "int list list"

datatype chart =
    LinesByType pivot
  | Line "(int \<times> nat) list"
  | BarH "(cell \<times> nat) list"
  | Hist "int list"

datatype artifact = Text string | Image chart

type_synonym files = "string \<rightharpoonup> artifact"

text \<open>Lines 69 to 71: the counts by type, written as the table \<^verbatim>\<open>type, count\<close>.\<close>

definition by_type :: "table \<Rightarrow> (cell \<times> nat) list" where
  "by_type df = value_counts (column df ''type'')"

definition summary_table :: "pandas \<Rightarrow> table \<Rightarrow> files \<Rightarrow> files" where
  "summary_table L df out =
     (if has_column df ''type''
      then out(''count_by_type.csv'' \<mapsto> Text (to_csv L (by_type df)))
      else out)"

text \<open>Lines 75 to 78: the rows with a year that is there and numeric. The cast
  \<^verbatim>\<open>astype(int)\<close> of line 78 leaves the integer cells of this model as they are.\<close>

definition parseable_years :: "pandas \<Rightarrow> table \<Rightarrow> table" where
  "parseable_years L df =
     (let tmp = dropna ''release_year'' df;
          tmp = setitem ''release_year''
                  (map (to_numeric (parse_number L)) (column tmp ''release_year'')) tmp;
          tmp = dropna ''release_year'' tmp
      in tmp)"

text \<open>Lines 81 to 84: \<^verbatim>\<open>pivot_table(index="release_year", columns="type",
  values="title", aggfunc="count", fill_value=0).sort_index()\<close>. pandas first looks the
  value column up and raises \<^verbatim>\<open>KeyError\<close> when the table has none of that label. The
  rows are grouped by year and type, each group counts its titles that are there, the
  years are the sorted row index and the types the sorted column index, and a pair of
  year and type with no group is filled with 0.\<close>

definition group_keys :: "table \<Rightarrow> (int \<times> string) list" where
  "group_keys tmp =
     concat (map (\<lambda>r. case (r ''release_year'', r ''type'') of
                          (Num y, Txt c) \<Rightarrow> [(y, c)]
                        | _ \<Rightarrow> []) (rows tmp))"

definition group_count :: "table \<Rightarrow> int \<Rightarrow> string \<Rightarrow> int" where
  "group_count tmp y c =
     (if (y, c) \<in> set (group_keys tmp)
      then int (length (filter (\<lambda>r. r ''release_year'' = Num y \<and> r ''type'' = Txt c \<and>
                                      r ''title'' \<noteq> NA) (rows tmp)))
      else 0)"

definition pivot_table :: "table \<Rightarrow> error + pivot" where
  "pivot_table tmp =
     (if \<not> has_column tmp ''title'' then Inl (KeyError ''title'')
      else
        let ys = sort (remdups (map fst (group_keys tmp)));
            cs = sort (remdups (map snd (group_keys tmp)))
        in Inr \<lparr> index = ys, columns = cs,
                 counts = map (\<lambda>y. map (\<lambda>c. group_count tmp y c) cs) ys \<rparr>)"

text \<open>Line 93: \<^verbatim>\<open>groupby("release_year").size().sort_index()\<close>.\<close>

definition size_by_year :: "table \<Rightarrow> (int \<times> nat) list" where
  "size_by_year tmp =
     (let years = int_cells (column tmp ''release_year'')
      in map (\<lambda>y. (y, count_list years y)) (sort (remdups years)))"

text \<open>Lines 74 to 101, the first chart. A step that writes files returns the error it
  raised, if any, with the files as they are then. \<^verbatim>\<open>DataFrame.plot\<close> raises
  \<^verbatim>\<open>TypeError: no numeric data to plot\<close> on a frame without columns.\<close>

definition release_year_chart :: "pandas \<Rightarrow> table \<Rightarrow> files \<Rightarrow> error option \<times> files" where
  "release_year_chart L df out =
     (if has_column df ''release_year'' then
        let tmp = parseable_years L df in
        if has_column tmp ''type'' then
          (case pivot_table tmp of
             Inl e \<Rightarrow> (Some e, out)
           | Inr p \<Rightarrow>
               if columns p = [] then (Some (TypeError ''no numeric data to plot''), out)
               else (None, out(''titles_by_year_by_type.png'' \<mapsto> Image (LinesByType p))))
        else (None, out(''titles_by_year.png'' \<mapsto> Image (Line (size_by_year tmp))))
      else (None, out))"

text \<open>Lines 104 to 113, the second chart: the ten most frequent ratings, the text
  \<^verbatim>\<open>nan\<close> read as missing; \<^verbatim>\<open>barh\<close> draws them in reverse.\<close>

definition ratings_chart :: "table \<Rightarrow> files \<Rightarrow> files" where
  "ratings_chart df out =
     (if has_column df ''rating'' then
        let ratings = filter (\<lambda>c. c \<noteq> NA)
                        (map (\<lambda>c. if c = Txt ''nan'' then NA else c)
                           (map astype_str (column df ''rating'')));
            top = take 10 (value_counts ratings)
        in out(''top_10_ratings.png'' \<mapsto> Image (BarH (rev top)))
      else out)"

text \<open>Lines 116 to 125, the third chart. The column is read without a test.\<close>

definition duration_hist :: "pandas \<Rightarrow> table \<Rightarrow> files \<Rightarrow> error option \<times> files" where
  "duration_hist L df out =
     (case getitem df ''duration_minutes'' of
        Inl e \<Rightarrow> (Some e, out)
      | Inr col \<Rightarrow>
          let mins = filter (\<lambda>c. c \<noteq> NA) (map (to_numeric (parse_number L)) col)
          in if length mins > 0
             then (None, out(''movie_duration_hist.png'' \<mapsto> Image (Hist (int_cells mins))))
             else (None, out))"

text \<open>Lines 128 to 136, the text summary. The dash of the heading is the three bytes
  of its UTF-8 encoding.\<close>

definition newline :: string where
  "newline = [CHR 0x0A]"

definition summary_text :: "pandas \<Rightarrow> table \<Rightarrow> string" where
  "summary_text L df =
     ''Netflix Titles '' @ [CHR 0xE2, CHR 0x80, CHR 0x93] @ '' Quick Summary'' @ newline
     @ replicate 32 (CHR ''='') @ newline @ newline
     @ ''Rows: '' @ str_of_nat (len df) @ newline
     @ (if has_column df ''title''
        then ''Unique titles: '' @ str_of_nat (nunique (column df ''title'')) @ newline
        else [])
     @ (if has_column df ''type''
        then to_string L (value_counts (column df ''type'')) @ newline
        else [])"

definition text_summary :: "pandas \<Rightarrow> table \<Rightarrow> files \<Rightarrow> files" where
  "text_summary L df out = out(''summary.txt'' \<mapsto> Text (summary_text L df))"

section \<open>The program\<close>

text \<open>The world the program runs in: the folder of the script, whether
  \<^verbatim>\<open>netflix_titles.xlsx\<close> is there, and the workbook it holds. The files of the output
  folder are the state; \<^verbatim>\<open>main\<close> returns them with the error that ended the run, if
  any.\<close>

record world =
  here :: string
  data_file_exists :: bool
  data_file :: workbook

definition data_file_name :: string where
  "data_file_name = ''netflix_titles.xlsx''"

definition not_found_message :: "string \<Rightarrow> string" where
  "not_found_message dir =
     ''Could not find '' @ data_file_name @ '' in:'' @ newline @ dir @ newline
     @ ''Put netflix_titles.xlsx in the same folder as this script.''"

definition report :: "pandas \<Rightarrow> table \<Rightarrow> files \<Rightarrow> error option \<times> files" where
  "report L df out =
     (let out = summary_table L df out in
      case release_year_chart L df out of
        (Some e, out) \<Rightarrow> (Some e, out)
      | (None, out) \<Rightarrow>
          let out = ratings_chart df out in
          (case duration_hist L df out of
             (Some e, out) \<Rightarrow> (Some e, out)
           | (None, out) \<Rightarrow> (None, text_summary L df out)))"

definition main :: "pandas \<Rightarrow> world \<Rightarrow> files \<Rightarrow> error option \<times> files" where
  "main L W out =
     (if \<not> data_file_exists W then (Some (FileNotFoundError (not_found_message (here W))), out)
      else
        (case pick_title_sheet (data_file W) of
           Inl e \<Rightarrow> (Some e, out)
         | Inr sheet \<Rightarrow> report L (normalize (parse_number L) sheet) out))"

section \<open>The specification's words\<close>

text \<open>The first maximal run of characters of a class: skip the characters that are
  not of the class, then take those that are; absent if none is found.\<close>

definition first_run :: "(char \<Rightarrow> bool) \<Rightarrow> string \<Rightarrow> string option" where
  "first_run C s =
     (let t = dropWhile (\<lambda>c. \<not> C c) s in if t = [] then None else Some (takeWhile C t))"

text \<open>A unit token holds a substring: the token is there and the substring is a
  contiguous part of it.\<close>

definition holds_substring :: "string \<Rightarrow> cell \<Rightarrow> bool" where
  "holds_substring pat unit = (case unit of Txt u \<Rightarrow> sublist pat u | _ \<Rightarrow> False)"

section \<open>Examples\<close>

text \<open>A row given by its cells, a number parser that knows no format beyond digit
  runs, and plain renderers, for the examples.\<close>

definition row_of :: "(string \<times> cell) list \<Rightarrow> row" where
  "row_of kvs name = (case map_of kvs name of None \<Rightarrow> NA | Some c \<Rightarrow> c)"

definition no_parse :: "string \<Rightarrow> int option" where
  "no_parse s = None"

definition plain_line :: "cell \<times> nat \<Rightarrow> string" where
  "plain_line kv =
     (case astype_str (fst kv) of Txt s \<Rightarrow> s | _ \<Rightarrow> []) @ '','' @ str_of_nat (snd kv) @ newline"

definition plain :: pandas where
  "plain = \<lparr> parse_number = no_parse,
             to_csv = (\<lambda>t. ''type,count'' @ newline @ concat (map plain_line t)),
             to_string = (\<lambda>t. concat (map plain_line t)) \<rparr>"

text \<open>Two workbooks: one holds sheets of two preferred names, behind a sheet of
  another name; the other holds no sheet of a preferred name.\<close>

definition sheet_a :: table where
  "sheet_a = \<lparr> labels = [''title''], rows = [row_of [(''title'', Txt ''A'')]] \<rparr>"

definition sheet_b :: table where
  "sheet_b = \<lparr> labels = [''title''], rows = [row_of [(''title'', Txt ''B'')]] \<rparr>"

definition book_priority :: workbook where
  "book_priority = [(''notes'', sheet_a), (''Sheet1'', sheet_a), (''titles'', sheet_b)]"

definition book_other :: workbook where
  "book_other = [(''notes'', sheet_a), (''data'', sheet_b)]"


definition sheet_preparsed :: table where
  "sheet_preparsed =
     \<lparr> labels = [''Duration'', ''Duration Minutes'', ''Duration Seasons''],
       rows = [row_of [(''Duration'', Txt ''90 min''), (''Duration Minutes'', Num 95),
                       (''Duration Seasons'', Num 2)],
               row_of [(''Duration'', Txt ''3 Seasons''), (''Duration Minutes'', Txt ''long'')]] \<rparr>"

text \<open>Duration texts: the three of the specification, and a unit that holds both
  \<^verbatim>\<open>min\<close> and \<^verbatim>\<open>season\<close>.\<close>

definition sheet_durations :: table where
  "sheet_durations =
     \<lparr> labels = [''Title'', ''Duration''],
       rows = [row_of [(''Title'', Txt ''A''), (''Duration'', Txt ''90 min'')],
               row_of [(''Title'', Txt ''B''), (''Duration'', Txt ''3 Seasons'')],
               row_of [(''Title'', Txt ''C''), (''Duration'', Txt ''N/A'')]] \<rparr>"

definition sheet_miniseason :: table where
  "sheet_miniseason =
     \<lparr> labels = [''Title'', ''Duration''],
       rows = [row_of [(''Title'', Txt ''D''), (''Duration'', Txt ''1 Miniseason'')]] \<rparr>"


text \<open>Worlds: one without the data file, and one whose sheet has a year and a type
  column and no title column.\<close>

definition world_missing :: world where
  "world_missing = \<lparr> here = ''/home/user/netflix'', data_file_exists = False, data_file = [] \<rparr>"

definition sheet_no_title :: table where
  "sheet_no_title =
     \<lparr> labels = [''release_year'', ''type''],
       rows = [row_of [(''release_year'', Num 2020), (''type'', Txt ''Movie'')]] \<rparr>"

definition world_no_title :: world where
  "world_no_title =
     \<lparr> here = ''/home/user/netflix'', data_file_exists = True,
       data_file = [(''Sheet1'', sheet_no_title)] \<rparr>"

text \<open>A sheet with titles, years (one of them text, one not a year) and types.\<close>

definition sheet_years :: table where
  "sheet_years =
     \<lparr> labels = [''Title'', ''Release Year'', ''Type''],
       rows = [row_of [(''Title'', Txt ''A''), (''Release Year'', Num 2021), (''Type'', Txt ''Movie'')],
               row_of [(''Title'', Txt ''B''), (''Release Year'', Txt ''2019''), (''Type'', Txt ''TV Show'')],
               row_of [(''Title'', Txt ''C''), (''Release Year'', Num 2021), (''Type'', Txt ''Movie'')],
               row_of [(''Title'', Txt ''D''), (''Release Year'', Txt ''soon''), (''Type'', Txt ''Movie'')],
               row_of [(''Release Year'', Num 2019), (''Type'', Txt ''TV Show'')]] \<rparr>"

section \<open>The loader picks by priority\<close>

lemma pick_loop_find:
  "pick_loop xls names =
     (case find (\<lambda>name. name \<in> set (sheet_names xls)) names of
        Some name \<Rightarrow> read_excel xls name
      | None \<Rightarrow> (case sheet_names xls of [] \<Rightarrow> Inl IndexError | first # _ \<Rightarrow> read_excel xls first))"
  by (induction names) auto

lemma read_excel_sheet:
  "name \<in> set (sheet_names xls) \<Longrightarrow> \<exists>df. read_excel xls name = Inr df \<and> (name, df) \<in> set xls"
  by (auto simp: read_excel_def sheet_names_def split: option.splits
      dest: map_of_SomeD simp: map_of_eq_None_iff)

lemma find_first:
  "i < length xs \<Longrightarrow> P (xs ! i) \<Longrightarrow> \<forall>j<i. \<not> P (xs ! j) \<Longrightarrow> find P xs = Some (xs ! i)"
proof (induction xs arbitrary: i)
  case Nil
  then show ?case by simp
next
  case (Cons x xs)
  show ?case
  proof (cases i)
    case 0
    with Cons.prems show ?thesis by simp
  next
    case (Suc k)
    with Cons.prems have "\<not> P x" by auto
    moreover from Suc Cons.prems have "find P xs = Some (xs ! k)"
      by (intro Cons.IH) auto
    ultimately show ?thesis using Suc by simp
  qed
qed

text \<open>C8. The loader reads the sheet of the first preferred name, in the order
  \<^verbatim>\<open>netflix_titles\<close>, \<^verbatim>\<open>titles\<close>, \<^verbatim>\<open>sheet1\<close>, \<^verbatim>\<open>Sheet1\<close>, that is a sheet name of
  the file; when no preferred name is a sheet name it reads the first sheet of the file,
  whatever its name. (A file without sheets ends in \<^verbatim>\<open>IndexError\<close>.)\<close>

theorem pick_title_sheet_priority:
  "(\<forall>i<length preferred.
      preferred ! i \<in> set (sheet_names xls) \<and> (\<forall>j<i. preferred ! j \<notin> set (sheet_names xls)) \<longrightarrow>
      (\<exists>df. pick_title_sheet xls = Inr df \<and> read_excel xls (preferred ! i) = Inr df \<and>
            (preferred ! i, df) \<in> set xls))
   \<and> ((\<forall>name \<in> set preferred. name \<notin> set (sheet_names xls)) \<and> xls \<noteq> [] \<longrightarrow>
        pick_title_sheet xls = Inr (snd (hd xls)))
   \<and> (xls = [] \<longrightarrow> pick_title_sheet xls = Inl IndexError)"
proof (intro conjI allI impI)
  fix i
  assume i: "i < length preferred"
    and m: "preferred ! i \<in> set (sheet_names xls) \<and> (\<forall>j<i. preferred ! j \<notin> set (sheet_names xls))"
  then have "find (\<lambda>name. name \<in> set (sheet_names xls)) preferred = Some (preferred ! i)"
    by (intro find_first) auto
  then have "pick_title_sheet xls = read_excel xls (preferred ! i)"
    by (simp add: pick_title_sheet_def pick_loop_find)
  with read_excel_sheet [of "preferred ! i" xls] m
  show "\<exists>df. pick_title_sheet xls = Inr df \<and> read_excel xls (preferred ! i) = Inr df \<and>
            (preferred ! i, df) \<in> set xls"
    by auto
next
  assume a: "(\<forall>name \<in> set preferred. name \<notin> set (sheet_names xls)) \<and> xls \<noteq> []"
  then have "find (\<lambda>name. name \<in> set (sheet_names xls)) preferred = None"
    by (simp add: find_None_iff)
  moreover from a obtain n df rest where "xls = (n, df) # rest"
    by (cases xls) auto
  ultimately show "pick_title_sheet xls = Inr (snd (hd xls))"
    by (simp add: pick_title_sheet_def pick_loop_find sheet_names_def read_excel_def)
next
  assume "xls = []"
  then show "pick_title_sheet xls = Inl IndexError"
    by (simp add: pick_title_sheet_def pick_loop_find sheet_names_def preferred_def)
qed

theorem pick_title_sheet_priority_witness:
  "pick_title_sheet book_priority = Inr sheet_b \<and> pick_title_sheet book_other = Inr sheet_a"
proof -
  have names: "sheet_names book_priority = [''notes'', ''Sheet1'', ''titles'']"
      "sheet_names book_other = [''notes'', ''data'']"
    by (simp_all add: sheet_names_def book_priority_def book_other_def)
  have "(1::nat) < length preferred" "preferred ! 1 = ''titles''" "preferred ! 0 = ''netflix_titles''"
    by (simp_all add: preferred_def)
  moreover have "\<forall>j<(1::nat). preferred ! j \<notin> set (sheet_names book_priority)"
    by (simp add: names preferred_def)
  ultimately have "\<exists>df. pick_title_sheet book_priority = Inr df \<and>
      read_excel book_priority ''titles'' = Inr df \<and> (''titles'', df) \<in> set book_priority"
    using pick_title_sheet_priority [of book_priority] by (auto simp: names)
  moreover have "read_excel book_priority ''titles'' = Inr sheet_b"
    by (simp add: read_excel_def book_priority_def)
  ultimately have 1: "pick_title_sheet book_priority = Inr sheet_b" by auto
  have "\<forall>name \<in> set preferred. name \<notin> set (sheet_names book_other)"
    by (simp add: names preferred_def)
  moreover have "book_other \<noteq> []"
    by (simp add: book_other_def)
  ultimately
  have "(\<forall>name \<in> set preferred. name \<notin> set (sheet_names book_other)) \<and> book_other \<noteq> []"
    by simp
  with pick_title_sheet_priority [of book_other]
  have "pick_title_sheet book_other = Inr (snd (hd book_other))" by blast
  then have 2: "pick_title_sheet book_other = Inr sheet_a" by (simp add: book_other_def)
  from 1 2 show ?thesis by simp
qed

section \<open>Tables and columns\<close>


lemma len_setitem: "length vals = len df \<Longrightarrow> len (setitem name vals df) = len df"
  by (simp add: len_def setitem_def)

lemma length_column: "length (column df name) = len df"
  by (simp add: column_def len_def)

lemma map_upd_zip:
  "length rs = length vs \<Longrightarrow>
   map (\<lambda>(r, v). (r(name := v)) m) (zip rs vs) = (if m = name then vs else map (\<lambda>r. r m) rs)"
  by (induction rs vs rule: list_induct2) auto

lemma column_setitem:
  "length vals = len df \<Longrightarrow>
   column (setitem name vals df) m = (if m = name then vals else column df m)"
  using map_upd_zip [of "rows df" vals name m]
  by (simp add: column_def setitem_def len_def case_prod_unfold comp_def)

lemma has_column_setitem:
  "has_column (setitem name vals df) m = (m = name \<or> has_column df m)"
  by (auto simp: has_column_def setitem_def)

lemma len_setitem_scalar: "len (setitem_scalar name v df) = len df"
  by (simp add: setitem_scalar_def len_setitem)

lemma column_setitem_scalar:
  "column (setitem_scalar name v df) m = (if m = name then replicate (len df) v else column df m)"
  by (simp add: setitem_scalar_def column_setitem)

lemma has_column_setitem_scalar:
  "has_column (setitem_scalar name v df) m = (m = name \<or> has_column df m)"
  by (simp add: setitem_scalar_def has_column_setitem)

lemma len_strip_type: "len (strip_type df) = len df"
  by (simp add: strip_type_def len_setitem length_column)

lemma has_column_strip_type: "has_column (strip_type df) m = has_column df m"
  by (auto simp: strip_type_def has_column_setitem)

lemma column_strip_type:
  "column (strip_type df) m =
     (if m = ''type'' \<and> has_column df ''type''
      then map cell_strip (map astype_str (column df ''type'')) else column df m)"
  by (simp add: strip_type_def column_setitem length_column)

lemma len_fill_duration: "len (fill_duration df) = len df"
  by (simp add: fill_duration_def Let_def len_setitem_scalar)

lemma has_column_fill_duration:
  "has_column (fill_duration df) m =
     (m = ''duration_minutes'' \<or> m = ''duration_seasons'' \<or> has_column df m)"
  by (auto simp: fill_duration_def Let_def has_column_setitem_scalar)

lemma column_fill_duration:
  "column (fill_duration df) m =
     (if (m = ''duration_minutes'' \<or> m = ''duration_seasons'') \<and> \<not> has_column df m
      then replicate (len df) NA else column df m)"
  by (simp add: fill_duration_def Let_def column_setitem_scalar len_setitem_scalar
      has_column_setitem_scalar)

lemma series_where_map:
  "series_where (map f xs) (map g xs) = map (\<lambda>x. if g x then f x else NA) xs"
  by (induction xs) (auto simp: series_where_def)

lemma len_derive_duration: "len (derive_duration parse df) = len df"
  by (simp add: derive_duration_def Let_def len_setitem length_column series_where_def)

lemma has_column_derive_duration:
  "has_column (derive_duration parse df) m =
     (m = ''duration_number'' \<or> m = ''duration_unit'' \<or> m = ''duration_minutes'' \<or>
      m = ''duration_seasons'' \<or> has_column df m)"
  by (auto simp: derive_duration_def Let_def has_column_setitem)

lemma column_derive_duration:
  "column (derive_duration parse df) m =
     (if m = ''duration_seasons'' then
        map (\<lambda>c. if str_contains ''season'' (unit_of c) then number_of parse c else NA)
          (column df ''duration'')
      else if m = ''duration_minutes'' then
        map (\<lambda>c. if str_contains ''min'' (unit_of c) then number_of parse c else NA)
          (column df ''duration'')
      else if m = ''duration_unit'' then map unit_of (column df ''duration'')
      else if m = ''duration_number'' then map (number_of parse) (column df ''duration'')
      else column df m)"
  by (simp add: derive_duration_def Let_def column_setitem len_setitem length_column
      series_where_def number_of_def unit_of_def zip_map_map comp_def
      zip_same_conv_map)



lemma len_parse_duration: "len (parse_duration parse df) = len df"
  by (simp add: parse_duration_def len_derive_duration len_fill_duration)

lemma len_standardize_columns: "len (standardize_columns sheet) = len sheet"
  by (simp add: standardize_columns_def len_def)

lemma len_normalize: "len (normalize parse sheet) = len sheet"
  by (simp add: normalize_def len_strip_type len_parse_duration len_standardize_columns)

lemma has_column_parse_duration:
  "has_column (parse_duration parse df) m =
     (m = ''duration_minutes'' \<or> m = ''duration_seasons'' \<or> has_column df m \<or>
      (derivable df \<and> (m = ''duration_number'' \<or> m = ''duration_unit'')))"
  by (auto simp: parse_duration_def derivable_def has_column_derive_duration has_column_fill_duration)

lemma has_column_normalize:
  "has_column (normalize parse sheet) m =
     (let df = standardize_columns sheet in
      m = ''duration_minutes'' \<or> m = ''duration_seasons'' \<or> has_column df m \<or>
      (derivable df \<and> (m = ''duration_number'' \<or> m = ''duration_unit'')))"
  by (simp add: normalize_def has_column_strip_type has_column_parse_duration Let_def)

lemma parse_duration_cases:
  "parse_duration parse df =
     (if derivable df then derive_duration parse df else fill_duration df)"
  by (simp add: parse_duration_def derivable_def)

lemma column_parse_duration_fill:
  "\<not> derivable df \<Longrightarrow> column (parse_duration parse df) m =
     (if (m = ''duration_minutes'' \<or> m = ''duration_seasons'') \<and> \<not> has_column df m
      then replicate (len df) NA else column df m)"
  by (simp add: parse_duration_cases column_fill_duration)

lemma column_normalize_duration:
  "m \<noteq> ''type'' \<Longrightarrow>
   column (normalize parse sheet) m = column (parse_duration parse (standardize_columns sheet)) m"
  by (simp add: normalize_def column_strip_type)

section \<open>The duration fields\<close>



text \<open>C4. When the sheet already has a minutes or a seasons field, nothing is derived:
  lines 53 to 63 only create the field that is not there. Every column of the sheet but
  \<^verbatim>\<open>type\<close> (which lines 65 and 66 strip) keeps its cells as they are, whatever they
  hold, and no column is added beyond the two duration fields.\<close>

theorem existing_duration_fields_pass_through:
  assumes "has_column (standardize_columns sheet) ''duration_minutes'' \<or>
           has_column (standardize_columns sheet) ''duration_seasons''"
  shows "parse_duration parse (standardize_columns sheet) = fill_duration (standardize_columns sheet) \<and>
         (\<forall>m. has_column (standardize_columns sheet) m \<and> m \<noteq> ''type'' \<longrightarrow>
              column (normalize parse sheet) m = column (standardize_columns sheet) m) \<and>
         (\<forall>m. has_column (normalize parse sheet) m \<longleftrightarrow>
              has_column (standardize_columns sheet) m \<or> m = ''duration_minutes'' \<or> m = ''duration_seasons'') \<and>
         len (normalize parse sheet) = len sheet"
proof -
  from assms have nd: "\<not> derivable (standardize_columns sheet)"
    by (auto simp: derivable_def)
  then have 1: "parse_duration parse (standardize_columns sheet) = fill_duration (standardize_columns sheet)"
    by (simp add: parse_duration_cases)
  have 2: "\<forall>m. has_column (standardize_columns sheet) m \<and> m \<noteq> ''type'' \<longrightarrow>
              column (normalize parse sheet) m = column (standardize_columns sheet) m"
    using nd by (simp add: column_normalize_duration column_parse_duration_fill)
  have 3: "\<forall>m. has_column (normalize parse sheet) m \<longleftrightarrow>
              has_column (standardize_columns sheet) m \<or> m = ''duration_minutes'' \<or> m = ''duration_seasons''"
    using nd by (auto simp: has_column_normalize Let_def)
  from 1 2 3 show ?thesis by (simp add: len_normalize)
qed

theorem existing_duration_fields_pass_through_witness:
  "has_column (standardize_columns sheet_preparsed) ''duration_minutes'' \<and>
   column (normalize no_parse sheet_preparsed) ''duration_minutes'' = [Num 95, Txt ''long''] \<and>
   column (normalize no_parse sheet_preparsed) ''duration_seasons'' = [Num 2, NA] \<and>
   \<not> has_column (normalize no_parse sheet_preparsed) ''duration_number''"
proof -
  have l: "labels (standardize_columns sheet_preparsed) =
      [''duration'', ''duration_minutes'', ''duration_seasons'']"
    by code_simp
  have c: "column (standardize_columns sheet_preparsed) ''duration_minutes'' = [Num 95, Txt ''long'']"
    "column (standardize_columns sheet_preparsed) ''duration_seasons'' = [Num 2, NA]"
    by code_simp+
  have h: "has_column (standardize_columns sheet_preparsed) ''duration_minutes''"
    "has_column (standardize_columns sheet_preparsed) ''duration_seasons''"
    "\<not> has_column (standardize_columns sheet_preparsed) ''duration_number''"
    by (simp_all add: has_column_def l)
  from h(1) have "has_column (standardize_columns sheet_preparsed) ''duration_minutes'' \<or>
           has_column (standardize_columns sheet_preparsed) ''duration_seasons''" by simp
  from existing_duration_fields_pass_through [OF this, of no_parse] h c
  show ?thesis by simp
qed

section \<open>Pattern extraction\<close>


lemma first_run_None: "first_run C s = None \<longleftrightarrow> (\<forall>c \<in> set s. \<not> C c)"
  by (auto simp: first_run_def Let_def dropWhile_eq_Nil_conv)


lemma prefix_take: "prefix xs ys \<longleftrightarrow> take (length xs) ys = xs"
  by (metis append_eq_conv_conj append_take_drop_id prefix_def)

lemma re_contains_sublist: "re_contains pat s \<longleftrightarrow> sublist pat s"
  by (induction s) (auto simp: sublist_Cons_right prefix_take)

lemma str_contains_holds: "str_contains pat c = holds_substring pat c"
  by (simp add: str_contains_def holds_substring_def re_contains_sublist split: cell.splits)




lemma column_normalize_derived:
  assumes "derivable (standardize_columns sheet)" and "m \<noteq> ''type''"
  shows "column (normalize parse sheet) m =
           column (derive_duration parse (standardize_columns sheet)) m"
  using assms by (simp add: column_normalize_duration parse_duration_cases)

lemma nth_column_normalize_derived:
  assumes "derivable (standardize_columns sheet)" and "i < len sheet"
  shows "column (normalize parse sheet) ''duration_number'' ! i =
           number_of parse (column (standardize_columns sheet) ''duration'' ! i)"
    and "column (normalize parse sheet) ''duration_unit'' ! i =
           unit_of (column (standardize_columns sheet) ''duration'' ! i)"
    and "column (normalize parse sheet) ''duration_minutes'' ! i =
           (if str_contains ''min'' (unit_of (column (standardize_columns sheet) ''duration'' ! i))
            then number_of parse (column (standardize_columns sheet) ''duration'' ! i) else NA)"
    and "column (normalize parse sheet) ''duration_seasons'' ! i =
           (if str_contains ''season'' (unit_of (column (standardize_columns sheet) ''duration'' ! i))
            then number_of parse (column (standardize_columns sheet) ''duration'' ! i) else NA)"
proof -
  from assms(2) have i: "i < length (column (standardize_columns sheet) ''duration'')"
    by (simp add: length_column len_standardize_columns)
  show "column (normalize parse sheet) ''duration_number'' ! i =
           number_of parse (column (standardize_columns sheet) ''duration'' ! i)"
    using i by (simp add: column_normalize_derived [OF assms(1)] column_derive_duration)
  show "column (normalize parse sheet) ''duration_unit'' ! i =
           unit_of (column (standardize_columns sheet) ''duration'' ! i)"
    using i by (simp add: column_normalize_derived [OF assms(1)] column_derive_duration)
  show "column (normalize parse sheet) ''duration_minutes'' ! i =
           (if str_contains ''min'' (unit_of (column (standardize_columns sheet) ''duration'' ! i))
            then number_of parse (column (standardize_columns sheet) ''duration'' ! i) else NA)"
    using i by (simp add: column_normalize_derived [OF assms(1)] column_derive_duration)
  show "column (normalize parse sheet) ''duration_seasons'' ! i =
           (if str_contains ''season'' (unit_of (column (standardize_columns sheet) ''duration'' ! i))
            then number_of parse (column (standardize_columns sheet) ''duration'' ! i) else NA)"
    using i by (simp add: column_normalize_derived [OF assms(1)] column_derive_duration)
qed


lemma sheet_durations_standard:
  "labels (standardize_columns sheet_durations) = [''title'', ''duration'']"
  "column (standardize_columns sheet_durations) ''duration'' =
     [Txt ''90 min'', Txt ''3 Seasons'', Txt ''N/A'']"
  "len sheet_durations = 3"
  by code_simp+


lemma unit_examples:
  "decimal ''90'' = 90" "decimal ''3'' = 3"
  "str_lower ''min'' = ''min''" "str_lower ''Seasons'' = ''seasons''" "str_lower ''N'' = ''n''"
  "holds_substring ''min'' (Txt ''min'')" "\<not> holds_substring ''season'' (Txt ''min'')"
  "\<not> holds_substring ''min'' (Txt ''seasons'')" "holds_substring ''season'' (Txt ''seasons'')"
  "\<not> holds_substring ''min'' (Txt ''n'')" "\<not> holds_substring ''season'' (Txt ''n'')"
  by code_simp+


text \<open>C1. Two fields in the sheet pass through as they are, so both may hold a value.
  Otherwise a record holds both a minutes and a seasons value only where the fields are
  derived and its unit token holds both \<^verbatim>\<open>min\<close> and \<^verbatim>\<open>season\<close>; and where the
  fields are derived and the unit token holds neither, both fields are missing.\<close>

theorem at_most_one_duration_field:
  assumes "i < len sheet"
    and "\<not> (has_column (standardize_columns sheet) ''duration_minutes'' \<and>
             has_column (standardize_columns sheet) ''duration_seasons'')"
  shows "let df = normalize parse sheet;
             minutes = column df ''duration_minutes'' ! i;
             seasons = column df ''duration_seasons'' ! i;
             unit = column df ''duration_unit'' ! i
         in (minutes \<noteq> NA \<and> seasons \<noteq> NA \<longrightarrow>
               derivable (standardize_columns sheet) \<and>
               holds_substring ''min'' unit \<and> holds_substring ''season'' unit) \<and>
            (derivable (standardize_columns sheet) \<and>
             \<not> holds_substring ''min'' unit \<and> \<not> holds_substring ''season'' unit \<longrightarrow>
               minutes = NA \<and> seasons = NA)"
proof (cases "derivable (standardize_columns sheet)")
  case True
  show ?thesis
    by (simp add: Let_def nth_column_normalize_derived [OF True assms(1)] True
        str_contains_holds)
next
  case False
  from assms(1) have i: "i < len (standardize_columns sheet)"
    by (simp add: len_standardize_columns)
  from assms(2) have "column (normalize parse sheet) ''duration_minutes'' ! i = NA \<or>
      column (normalize parse sheet) ''duration_seasons'' ! i = NA"
    using False i
    by (auto simp: column_normalize_duration column_parse_duration_fill)
  with False show ?thesis by (auto simp: Let_def)
qed

theorem at_most_one_duration_field_witness:
  "0 < len sheet_durations \<and>
   \<not> (has_column (standardize_columns sheet_durations) ''duration_minutes'' \<and>
      has_column (standardize_columns sheet_durations) ''duration_seasons'') \<and>
   \<not> holds_substring ''min'' (column (normalize no_parse sheet_durations) ''duration_unit'' ! 2) \<and>
   \<not> holds_substring ''season'' (column (normalize no_parse sheet_durations) ''duration_unit'' ! 2) \<and>
   column (normalize no_parse sheet_durations) ''duration_minutes'' ! 2 = NA \<and>
   column (normalize no_parse sheet_durations) ''duration_seasons'' ! 2 = NA \<and>
   (column (normalize no_parse sheet_durations) ''duration_minutes'' ! 0 = NA \<or>
    column (normalize no_parse sheet_durations) ''duration_seasons'' ! 0 = NA)"
proof -
  have d: "derivable (standardize_columns sheet_durations)"
    and n: "\<not> (has_column (standardize_columns sheet_durations) ''duration_minutes'' \<and>
      has_column (standardize_columns sheet_durations) ''duration_seasons'')"
    by (simp_all add: derivable_def has_column_def sheet_durations_standard)
  have i: "0 < len sheet_durations" "2 < len sheet_durations"
    by (simp_all add: sheet_durations_standard)
  have u: "column (normalize no_parse sheet_durations) ''duration_unit'' ! 2 = Txt ''n''"
    "column (normalize no_parse sheet_durations) ''duration_unit'' ! 0 = Txt ''min''"
    by code_simp+
  from at_most_one_duration_field [OF i(2) n, of no_parse]
    at_most_one_duration_field [OF i(1) n, of no_parse] d n i
  show ?thesis
    by (auto simp: Let_def u unit_examples)
qed

text \<open>The claim as written fails on the duration text \<^verbatim>\<open>1 Miniseason\<close>, whose unit
  holds both substrings, and on a sheet that brings both fields along.\<close>

theorem both_duration_fields_counterexample:
  "column (normalize no_parse sheet_miniseason) ''duration_unit'' = [Txt ''miniseason''] \<and>
   column (normalize no_parse sheet_miniseason) ''duration_minutes'' = [Num 1] \<and>
   column (normalize no_parse sheet_miniseason) ''duration_seasons'' = [Num 1] \<and>
   column (normalize no_parse sheet_preparsed) ''duration_minutes'' ! 0 = Num 95 \<and>
   column (normalize no_parse sheet_preparsed) ''duration_seasons'' ! 0 = Num 2"
  by code_simp

section \<open>Counting values\<close>















section \<open>The files a run writes\<close>










section \<open>Errors\<close>

lemma has_column_dropna: "has_column (dropna name df) m = has_column df m"
  by (simp add: has_column_def dropna_def)

lemma has_column_parseable_years:
  "has_column df ''release_year'' \<Longrightarrow> has_column (parseable_years L df) m = has_column df m"
  by (auto simp: parseable_years_def Let_def has_column_dropna has_column_setitem)

lemma release_year_chart_error:
  assumes "fst (release_year_chart L df out) = Some e"
  shows "(e = KeyError ''title'' \<and> \<not> has_column df ''title'') \<or>
         e = TypeError ''no numeric data to plot''"
  using assms
  by (auto simp: release_year_chart_def Let_def pivot_table_def has_column_parseable_years
      split: if_splits sum.splits)

lemma missing_title_raises:
  assumes "has_column df ''release_year''" and "has_column df ''type''"
    and "\<not> has_column df ''title''"
  shows "fst (report L df out) = Some (KeyError ''title'')"
  using assms
  by (simp add: report_def release_year_chart_def Let_def pivot_table_def
      has_column_parseable_years)

lemma duration_hist_error:
  "fst (duration_hist L df out) = Some e \<Longrightarrow> e = KeyError ''duration_minutes''"
  by (auto simp: duration_hist_def getitem_def Let_def split: if_splits)

lemma report_error:
  assumes "fst (report L df out) = Some e"
  shows "e = KeyError ''title'' \<or> e = TypeError ''no numeric data to plot'' \<or>
         e = KeyError ''duration_minutes''"
proof -
  let ?o1 = "summary_table L df out"
  show ?thesis
  proof (cases "fst (release_year_chart L df ?o1)")
    case (Some e')
    with assms have "e' = e"
      by (auto simp: report_def Let_def split: prod.splits option.splits)
    with Some release_year_chart_error [of L df ?o1 e] show ?thesis by auto
  next
    case None
    with assms have "fst (duration_hist L df (ratings_chart df (snd (release_year_chart L df ?o1)))) = Some e"
      by (auto simp: report_def Let_def split: prod.splits option.splits)
    then show ?thesis by (auto dest: duration_hist_error)
  qed
qed

lemma pick_loop_error:
  "pick_loop xls names = Inl e \<Longrightarrow> e = IndexError \<or> (\<exists>name. e = KeyError name)"
  by (induction names) (auto simp: read_excel_def split: list.splits option.splits if_splits)

text \<open>C5. Without the input file the run ends in \<^verbatim>\<open>FileNotFoundError\<close> before anything
  is written: the files of the output folder are as they were. The message holds the
  name of the expected file and the folder it was looked for in. A run ends in this
  error only when the file is missing.\<close>

theorem missing_input_file:
  "(\<not> data_file_exists W \<longrightarrow>
      main L W out = (Some (FileNotFoundError (not_found_message (here W))), out) \<and>
      sublist data_file_name (not_found_message (here W)) \<and>
      sublist (here W) (not_found_message (here W))) \<and>
   ((\<exists>msg. fst (main L W out) = Some (FileNotFoundError msg)) \<longleftrightarrow> \<not> data_file_exists W)"
proof -
  have n: "sublist data_file_name (not_found_message (here W))"
    unfolding not_found_message_def by (rule sublist_appendI)
  have "not_found_message (here W) =
      (''Could not find '' @ data_file_name @ '' in:'' @ newline) @ here W @
      (newline @ ''Put netflix_titles.xlsx in the same folder as this script.'')"
    by (simp add: not_found_message_def)
  then have h: "sublist (here W) (not_found_message (here W))"
    by (metis sublist_appendI)
  have m: "\<not> data_file_exists W \<Longrightarrow>
      main L W out = (Some (FileNotFoundError (not_found_message (here W))), out)"
    by (simp add: main_def)
  have "\<not> data_file_exists W" if "fst (main L W out) = Some (FileNotFoundError msg)" for msg
  proof
    assume ex: "data_file_exists W"
    show False
    proof (cases "pick_title_sheet (data_file W)")
      case (Inl e)
      with ex that have "e = FileNotFoundError msg"
        by (simp add: main_def)
      with Inl pick_loop_error [of "data_file W" preferred e] show False
        by (auto simp: pick_title_sheet_def)
    next
      case (Inr sheet)
      with ex that have "fst (report L (normalize (parse_number L) sheet) out) =
          Some (FileNotFoundError msg)"
        by (simp add: main_def)
      from report_error [OF this] show False by simp
    qed
  qed
  with m n h show ?thesis by auto
qed

theorem missing_input_file_witness:
  "\<not> data_file_exists world_missing \<and>
   main plain world_missing Map.empty =
     (Some (FileNotFoundError
        (''Could not find netflix_titles.xlsx in:'' @ newline @ ''/home/user/netflix'' @ newline
         @ ''Put netflix_titles.xlsx in the same folder as this script.'')), Map.empty)"
proof -
  have e: "\<not> data_file_exists world_missing" and h: "here world_missing = ''/home/user/netflix''"
    by (simp_all add: world_missing_def)
  from e missing_input_file [of world_missing plain Map.empty]
  show ?thesis
    by (simp add: h not_found_message_def data_file_name_def)
qed

text \<open>C2. A sheet with a year and a type column and no title column: line 82 counts
  the titles, pandas looks the \<^verbatim>\<open>title\<close> column up, and the run ends in \<^verbatim>\<open>KeyError\<close>
  after the CSV table and before the text summary.\<close>

theorem missing_title_ends_the_run:
  "fst (main plain world_no_title Map.empty) = Some (KeyError ''title'') \<and>
   snd (main plain world_no_title Map.empty) ''summary.txt'' = None \<and>
   snd (main plain world_no_title Map.empty) ''count_by_type.csv'' =
     Some (Text (''type,count'' @ newline @ ''Movie,1'' @ newline))"
  by code_simp

section \<open>The pivot of years and types\<close>

lemma rows_setitem_map:
  "rows (setitem name (map f (column df name)) df) = map (\<lambda>r. r(name := f (r name))) (rows df)"
  by (simp add: setitem_def column_def zip_map2 zip_same_conv_map comp_def)

lemma to_numeric_cases: "to_numeric parse c = NA \<or> (\<exists>i. to_numeric parse c = Num i)"
  by (auto simp: to_numeric_def split: cell.splits option.splits)

lemma rows_parseable_years:
  "rows (parseable_years L df) =
     filter (\<lambda>r. r ''release_year'' \<noteq> NA)
       (map (\<lambda>r. r(''release_year'' := to_numeric (parse_number L) (r ''release_year'')))
          (filter (\<lambda>r. r ''release_year'' \<noteq> NA) (rows df)))"
  by (simp add: parseable_years_def Let_def dropna_def rows_setitem_map)

lemma parseable_years_row:
  assumes "r \<in> set (rows (parseable_years L df))"
  shows "(\<exists>y. r ''release_year'' = Num y) \<and>
         (\<exists>r0 \<in> set (rows df). r ''type'' = r0 ''type'' \<and> r ''title'' = r0 ''title'' \<and>
            r0 ''release_year'' \<noteq> NA \<and>
            r ''release_year'' = to_numeric (parse_number L) (r0 ''release_year''))"
proof -
  from assms obtain r0 where r0: "r0 \<in> set (rows df)" "r0 ''release_year'' \<noteq> NA"
    and r: "r = r0(''release_year'' := to_numeric (parse_number L) (r0 ''release_year''))"
    and n: "r ''release_year'' \<noteq> NA"
    by (auto simp: rows_parseable_years)
  from n r to_numeric_cases [of "parse_number L" "r0 ''release_year''"]
  have "\<exists>y. r ''release_year'' = Num y" by auto
  with r0 r show ?thesis by auto
qed

lemma rows_strip_type:
  "has_column df ''type'' \<Longrightarrow>
   rows (strip_type df) = map (\<lambda>r. r(''type'' := cell_strip (astype_str (r ''type'')))) (rows df)"
  using rows_setitem_map [of "''type''" "\<lambda>c. cell_strip (astype_str c)" df]
  by (simp add: strip_type_def comp_def)

lemma stripped_is_text: "\<exists>s. cell_strip (astype_str c) = Txt s"
  by (cases c) (simp_all add: cell_strip_def astype_str_def)

lemma normalize_row_type:
  assumes "has_column (standardize_columns sheet) ''type''"
    and "r \<in> set (rows (normalize parse sheet))"
  shows "\<exists>s. r ''type'' = Txt s"
proof -
  from assms(1) have "has_column (parse_duration parse (standardize_columns sheet)) ''type''"
    by (simp add: has_column_parse_duration)
  with assms(2) obtain r0 where "r = r0(''type'' := cell_strip (astype_str (r0 ''type'')))"
    by (auto simp: normalize_def rows_strip_type)
  with stripped_is_text [of "r0 ''type''"] show ?thesis by auto
qed

lemma group_keys_set:
  "set (group_keys tmp) =
     {(y, c). \<exists>r \<in> set (rows tmp). r ''release_year'' = Num y \<and> r ''type'' = Txt c}"
  by (auto simp: group_keys_def split: cell.splits)

lemma group_count_nonneg: "0 \<le> group_count tmp y c"
  by (simp add: group_count_def)

lemma pivot_table_sound:
  assumes "has_column tmp ''title''"
  shows "\<exists>p. pivot_table tmp = Inr p \<and>
           sorted (index p) \<and> distinct (index p) \<and> set (index p) = fst ` set (group_keys tmp) \<and>
           sorted (columns p) \<and> distinct (columns p) \<and>
           set (columns p) = snd ` set (group_keys tmp) \<and>
           length (counts p) = length (index p) \<and>
           (\<forall>i<length (index p). length (counts p ! i) = length (columns p) \<and>
              (\<forall>j<length (columns p).
                 counts p ! i ! j = group_count tmp (index p ! i) (columns p ! j) \<and>
                 0 \<le> counts p ! i ! j))"
  using assms by (simp add: pivot_table_def Let_def group_count_nonneg)

lemma pivot_of_titled_sheet:
  assumes "has_column (standardize_columns sheet) ''title''"
    and "has_column (standardize_columns sheet) ''type''"
    and "has_column (standardize_columns sheet) ''release_year''"
  shows "\<exists>p. pivot_table (parseable_years L (normalize parse sheet)) = Inr p \<and>
           sorted (index p) \<and> distinct (index p) \<and>
           set (index p) =
             {y. \<exists>r \<in> set (rows (parseable_years L (normalize parse sheet))).
                   r ''release_year'' = Num y} \<and>
           distinct (columns p) \<and>
           set (columns p) =
             {c. \<exists>r \<in> set (rows (parseable_years L (normalize parse sheet))).
                   r ''type'' = Txt c} \<and>
           length (counts p) = length (index p) \<and>
           (\<forall>i<length (index p). length (counts p ! i) = length (columns p) \<and>
              (\<forall>j<length (columns p). 0 \<le> counts p ! i ! j))"
proof -
  let ?df = "normalize parse sheet"
  let ?tmp = "parseable_years L ?df"
  from assms have h: "has_column ?df ''release_year''" "has_column ?df ''title''"
    by (simp_all add: has_column_normalize Let_def)
  then have "has_column ?tmp ''title''"
    by (simp add: has_column_parseable_years)
  from pivot_table_sound [OF this] obtain p where p: "pivot_table ?tmp = Inr p"
    "sorted (index p)" "distinct (index p)" "set (index p) = fst ` set (group_keys ?tmp)"
    "distinct (columns p)" "set (columns p) = snd ` set (group_keys ?tmp)"
    "length (counts p) = length (index p)"
    and q: "\<forall>i<length (index p). length (counts p ! i) = length (columns p) \<and>
       (\<forall>j<length (columns p).
          counts p ! i ! j = group_count ?tmp (index p ! i) (columns p ! j) \<and>
          0 \<le> counts p ! i ! j)"
    by blast
  from q have e: "\<forall>i<length (index p). length (counts p ! i) = length (columns p) \<and>
       (\<forall>j<length (columns p). 0 \<le> counts p ! i ! j)"
    by blast
  have row: "(\<exists>y. r ''release_year'' = Num y) \<and> (\<exists>c. r ''type'' = Txt c)"
    if "r \<in> set (rows ?tmp)" for r
  proof -
    from parseable_years_row [OF that] obtain r0 where
      "\<exists>y. r ''release_year'' = Num y" "r0 \<in> set (rows ?df)" "r ''type'' = r0 ''type''"
      by auto
    with normalize_row_type [OF assms(2), of r0 parse] show ?thesis by auto
  qed
  have "fst ` set (group_keys ?tmp) = {y. \<exists>r \<in> set (rows ?tmp). r ''release_year'' = Num y}"
    using row by (force simp: group_keys_set)
  moreover
  have "snd ` set (group_keys ?tmp) = {c. \<exists>r \<in> set (rows ?tmp). r ''type'' = Txt c}"
    using row by (force simp: group_keys_set)
  ultimately show ?thesis using p e by auto
qed

lemma pivot_example:
  "pivot_table (parseable_years plain (normalize no_parse sheet_years)) =
     Inr \<lparr> index = [2019, 2021], columns = [''Movie'', ''TV Show''], counts = [[0, 1], [2, 0]] \<rparr>"
  by code_simp

text \<open>C7. On the same sheet no pivot is built: \<^verbatim>\<open>pivot_table\<close> raises \<^verbatim>\<open>KeyError\<close> for
  the value column \<^verbatim>\<open>title\<close>, although the sheet has parseable years and a type
  column.\<close>

theorem no_pivot_without_title:
  "has_column (normalize no_parse sheet_no_title) ''release_year'' \<and>
   has_column (normalize no_parse sheet_no_title) ''type'' \<and>
   column (parseable_years plain (normalize no_parse sheet_no_title)) ''release_year'' = [Num 2020] \<and>
   pivot_table (parseable_years plain (normalize no_parse sheet_no_title)) = Inl (KeyError ''title'')"
  by code_simp

end
